theory Spec2Isabelle
  imports Complex_Main
begin

section \<open>JavaScript numbers\<close>

text \<open>
  The engine computes with JavaScript numbers. A number is modelled as a finite real, one of
  the two infinities, or NaN. The special values follow IEEE 754 as JavaScript applies it
  (division by zero, \<open>Infinity - Infinity\<close>, comparisons with NaN). A finite result is the
  exact real: the model has no rounding to a double, no underflow to zero, no overflow of a
  finite result to an infinity, and one zero only (a zero divisor counts as \<open>+0\<close>). It
  therefore decides nothing that hangs on those effects, such as which side of an integer a
  computed logarithm falls on, or whether a small increment is absorbed by a large sum.
\<close>

datatype jsnum = Fin real | PInf | NInf | NaN

fun js_neg :: "jsnum \<Rightarrow> jsnum" where
  "js_neg (Fin a) = Fin (- a)"
| "js_neg PInf = NInf"
| "js_neg NInf = PInf"
| "js_neg NaN = NaN"

fun js_add :: "jsnum \<Rightarrow> jsnum \<Rightarrow> jsnum" where
  "js_add NaN _ = NaN"
| "js_add _ NaN = NaN"
| "js_add (Fin a) (Fin b) = Fin (a + b)"
| "js_add PInf NInf = NaN"
| "js_add NInf PInf = NaN"
| "js_add PInf _ = PInf"
| "js_add NInf _ = NInf"
| "js_add (Fin a) PInf = PInf"
| "js_add (Fin a) NInf = NInf"

definition js_sub :: "jsnum \<Rightarrow> jsnum \<Rightarrow> jsnum" where
  "js_sub x y = js_add x (js_neg y)"

text \<open>The sign of a number that is not NaN: \<open>-1\<close>, \<open>0\<close> or \<open>1\<close>.\<close>

fun js_sign :: "jsnum \<Rightarrow> real" where
  "js_sign (Fin a) = sgn a"
| "js_sign PInf = 1"
| "js_sign NInf = - 1"
| "js_sign NaN = 0"

definition js_inf :: "real \<Rightarrow> jsnum" where
  "js_inf s = (if s < 0 then NInf else PInf)"

fun js_mul :: "jsnum \<Rightarrow> jsnum \<Rightarrow> jsnum" where
  "js_mul NaN _ = NaN"
| "js_mul _ NaN = NaN"
| "js_mul (Fin a) (Fin b) = Fin (a * b)"
| "js_mul x y = (if js_sign x * js_sign y = 0 then NaN else js_inf (js_sign x * js_sign y))"

fun js_div :: "jsnum \<Rightarrow> jsnum \<Rightarrow> jsnum" where
  "js_div NaN _ = NaN"
| "js_div _ NaN = NaN"
| "js_div (Fin a) (Fin b) =
     (if b = 0 then (if a = 0 then NaN else js_inf a) else Fin (a / b))"
| "js_div (Fin a) _ = Fin 0"
| "js_div x (Fin b) = js_inf (js_sign x * (if b < 0 then - 1 else 1))"
| "js_div _ _ = NaN"

fun js_lt :: "jsnum \<Rightarrow> jsnum \<Rightarrow> bool" where
  "js_lt NaN _ = False"
| "js_lt _ NaN = False"
| "js_lt (Fin a) (Fin b) = (a < b)"
| "js_lt (Fin a) PInf = True"
| "js_lt (Fin a) NInf = False"
| "js_lt PInf _ = False"
| "js_lt NInf NInf = False"
| "js_lt NInf _ = True"

definition js_gt :: "jsnum \<Rightarrow> jsnum \<Rightarrow> bool" where
  "js_gt x y = js_lt y x"

text \<open>\<open>Math.max\<close> of two numbers, \<open>Math.sqrt\<close>, \<open>Math.log\<close>, \<open>Math.round\<close> (ties go up),
  \<open>Math.floor\<close> and the remainder operator \<open>%\<close> (the result has the sign of the dividend).\<close>

definition js_max :: "jsnum \<Rightarrow> jsnum \<Rightarrow> jsnum" where
  "js_max x y = (if x = NaN \<or> y = NaN then NaN else if js_lt x y then y else x)"

fun js_sqrt :: "jsnum \<Rightarrow> jsnum" where
  "js_sqrt (Fin a) = (if a < 0 then NaN else Fin (sqrt a))"
| "js_sqrt PInf = PInf"
| "js_sqrt NInf = NaN"
| "js_sqrt NaN = NaN"

fun js_log :: "jsnum \<Rightarrow> jsnum" where
  "js_log (Fin a) = (if a < 0 then NaN else if a = 0 then NInf else Fin (ln a))"
| "js_log PInf = PInf"
| "js_log NInf = NaN"
| "js_log NaN = NaN"

fun js_round :: "jsnum \<Rightarrow> jsnum" where
  "js_round (Fin a) = Fin (of_int \<lfloor>a + 1 / 2\<rfloor>)"
| "js_round x = x"

fun js_floor :: "jsnum \<Rightarrow> jsnum" where
  "js_floor (Fin a) = Fin (of_int \<lfloor>a\<rfloor>)"
| "js_floor x = x"

definition trunc :: "real \<Rightarrow> int" where
  "trunc q = (if 0 \<le> q then \<lfloor>q\<rfloor> else \<lceil>q\<rceil>)"

fun js_rem :: "jsnum \<Rightarrow> jsnum \<Rightarrow> jsnum" where
  "js_rem NaN _ = NaN"
| "js_rem _ NaN = NaN"
| "js_rem PInf _ = NaN"
| "js_rem NInf _ = NaN"
| "js_rem (Fin a) (Fin b) = (if b = 0 then NaN else Fin (a - b * of_int (trunc (a / b))))"
| "js_rem (Fin a) _ = Fin a"

text \<open>
  Reading an array at a number: an index that is a whole number inside the array gives the
  element, any other index gives \<open>undefined\<close> (\<open>None\<close>). An arithmetic operator converts
  \<open>undefined\<close> to NaN.
\<close>

definition arr_get :: "'a list \<Rightarrow> jsnum \<Rightarrow> 'a option" where
  "arr_get xs i =
     (case i of
        Fin r \<Rightarrow> (if r = of_int \<lfloor>r\<rfloor> \<and> 0 \<le> r \<and> r < real (length xs)
                  then Some (xs ! nat \<lfloor>r\<rfloor>) else None)
      | _ \<Rightarrow> None)"

definition to_number :: "real option \<Rightarrow> jsnum" where
  "to_number v = (case v of None \<Rightarrow> NaN | Some r \<Rightarrow> Fin r)"

section \<open>Tuner: autocorrelation and note mapping\<close>

text \<open>
  \<open>autoCorrelate\<close> (src/services/audioEngine.ts). The frame is a \<open>Float32Array\<close> of finite
  samples, modelled as a list of reals. The gate sums the squares in index order.
\<close>

definition sum_squares :: "real list \<Rightarrow> real" where
  "sum_squares buf = fold (\<lambda>i rms. rms + buf ! i * buf ! i) [0..<length buf] 0"

definition frame_rms :: "real list \<Rightarrow> jsnum" where
  "frame_rms buf = js_sqrt (js_div (Fin (sum_squares buf)) (Fin (real (length buf))))"

text \<open>The inner loop: the sum of \<open>|buf[i] - buf[i + offset]|\<close> for \<open>i < bufferLength - offset\<close>.\<close>

definition abs_diff_sum :: "real list \<Rightarrow> nat \<Rightarrow> real" where
  "abs_diff_sum buf offset =
     fold (\<lambda>i correlation. correlation + \<bar>buf ! i - buf ! (i + offset)\<bar>)
       [0..<length buf - offset] 0"

text \<open>
  One iteration of the outer loop over the lags, at lag \<open>offset\<close>: it either returns from
  inside the loop (the branch that refines the best lag) or goes on with updated variables.
  \<open>Return\<close> carries what the refinement expression reads: the best lag and the
  \<open>correlations\<close> array.
\<close>

datatype scan_step = Continue int real bool "real list" | Return int "real list"

definition scan_body :: "real list \<Rightarrow> nat \<Rightarrow> int \<Rightarrow> real \<Rightarrow> bool \<Rightarrow> real list \<Rightarrow> scan_step" where
  "scan_body buf offset best_offset best_correlation foundGoodCorrelation correlations =
     (let correlation = 1 - abs_diff_sum buf offset / real (length buf);
          correlations' = correlations[offset := correlation]
      in if correlation > 0.9 \<and> correlation > best_correlation then
           (if correlation > best_correlation
            then Continue (int offset) correlation True correlations'
            else Continue best_offset best_correlation True correlations')
         else if foundGoodCorrelation then Return best_offset correlations'
         else Continue best_offset best_correlation foundGoodCorrelation correlations')"

text \<open>The loop: how it ends, with the variables the code after the exit point reads.\<close>

datatype scan_exit = Refine int "real list" | Exhausted int real

function scan :: "real list \<Rightarrow> nat \<Rightarrow> int \<Rightarrow> real \<Rightarrow> bool \<Rightarrow> real list \<Rightarrow> scan_exit" where
  "scan buf offset best_offset best_correlation foundGoodCorrelation correlations =
     (if offset < length buf then
        (case scan_body buf offset best_offset best_correlation foundGoodCorrelation
                correlations of
           Continue best_offset' best_correlation' found' correlations' \<Rightarrow>
             scan buf (offset + 1) best_offset' best_correlation' found' correlations'
         | Return best_offset' correlations' \<Rightarrow> Refine best_offset' correlations')
      else Exhausted best_offset best_correlation)"
  by pat_completeness auto
termination
  by (relation "measure (\<lambda>(buf, offset, rest). length buf - offset)") auto

declare scan.simps [simp del]

definition autoCorrelate :: "real list \<Rightarrow> real \<Rightarrow> jsnum" where
  "autoCorrelate buf sampleRate =
     (if js_lt (frame_rms buf) (Fin 0.01) then Fin (- 1)
      else
        (case scan buf 0 (- 1) 0 False (replicate (length buf) 0) of
           Refine best_offset correlations \<Rightarrow>
             (let shift =
                    js_div
                      (js_sub (to_number (arr_get correlations (Fin (real_of_int best_offset + 1))))
                              (to_number (arr_get correlations (Fin (real_of_int best_offset - 1)))))
                      (to_number (arr_get correlations (Fin (real_of_int best_offset))))
              in js_div (Fin sampleRate)
                   (js_add (Fin (real_of_int best_offset)) (js_mul (Fin 8) shift)))
         | Exhausted best_offset best_correlation \<Rightarrow>
             (if best_correlation > 0.01
              then js_div (Fin sampleRate) (Fin (real_of_int best_offset))
              else Fin (- 1))))"

text \<open>\<open>freqToNote\<close>: the note is \<open>None\<close> where \<open>noteStrings[noteIndex]\<close> is \<open>undefined\<close>.\<close>

record note_result =
  "note" :: "string option"
  cents :: jsnum

definition noteStrings :: "string list" where
  "noteStrings =
     [''C'', ''C#'', ''D'', ''D#'', ''E'', ''F'', ''F#'', ''G'', ''G#'', ''A'', ''A#'', ''B'']"

definition pitch_of :: "jsnum \<Rightarrow> jsnum" where
  "pitch_of frequency =
     js_add (js_mul (Fin 12) (js_div (js_log (js_div frequency (Fin 440))) (js_log (Fin 2))))
       (Fin 69)"

definition freqToNote :: "jsnum \<Rightarrow> note_result" where
  "freqToNote frequency =
     (let pitch = pitch_of frequency;
          roundedPitch = js_round pitch;
          noteIndex = js_rem roundedPitch (Fin 12);
          octave = js_sub (js_floor (js_div roundedPitch (Fin 12))) (Fin 1);
          cents = js_floor (js_mul (js_sub pitch roundedPitch) (Fin 100))
      in \<lparr>note = arr_get noteStrings noteIndex, cents = cents\<rparr>)"

section \<open>The engine and its host\<close>

text \<open>
  The fields of class \<open>AudioEngine\<close>. An object the engine holds or not (the audio context,
  the analyser, the source node) is a flag; a handle or a callback is an optional identifier.
\<close>

record engine =
  audioContext :: bool
  nextNoteTime :: jsnum
  timerID :: "nat option"
  isMetronomePlaying :: bool
  bpm :: jsnum
  beatCallback :: "nat option"
  currentBeatInBar :: int
  analyser :: bool
  microphoneStream :: "nat option"
  tunerFrameId :: "nat option"
  tunerCallback :: "nat option"
  sourceNode :: bool

text \<open>
  What the engine asks of the browser, as an explicit store: the timeouts armed with
  \<open>setTimeout\<close> and not yet run or cleared (handle, delay in milliseconds, callback), the
  animation frames requested and not yet run or cancelled (their callback is always
  \<open>detectPitch\<close>), the next handle of each kind, the oscillator notes started (frequency and
  start time), the microphone streams whose tracks are live, and the values handed to the two
  callbacks of the application, in order.
\<close>

datatype action = RunScheduler | NotifyBeat int

record host =
  timeouts :: "(nat \<times> jsnum \<times> action) list"
  nextTimeout :: nat
  frames :: "nat list"
  nextFrame :: nat
  oscillators :: "(real \<times> jsnum) list"
  liveStreams :: "nat list"
  beatLog :: "int list"
  pitchLog :: "(jsnum \<times> string option \<times> jsnum) list"

type_synonym state = "engine \<times> host"

definition new_engine :: engine where
  "new_engine =
     \<lparr>audioContext = False, nextNoteTime = Fin 0, timerID = None,
      isMetronomePlaying = False, bpm = Fin 120, beatCallback = None, currentBeatInBar = 0,
      analyser = False, microphoneStream = None, tunerFrameId = None, tunerCallback = None,
      sourceNode = False\<rparr>"

definition new_host :: host where
  "new_host =
     \<lparr>timeouts = [], nextTimeout = 1, frames = [], nextFrame = 1, oscillators = [],
      liveStreams = [], beatLog = [], pitchLog = []\<rparr>"

text \<open>
  A call either returns or throws; both carry the state it leaves behind. The engine itself
  never throws: the exception modelled is the one the audio nodes raise when a note is to start
  at a time that is negative or not finite.
\<close>

datatype 'a outcome = Returned 'a | Threw 'a

fun state_of :: "'a outcome \<Rightarrow> 'a" where
  "state_of (Returned s) = s"
| "state_of (Threw s) = s"

definition getContext :: "engine \<Rightarrow> engine" where
  "getContext e = e\<lparr>audioContext := True\<rparr>"

definition clearTimeout :: "nat \<Rightarrow> host \<Rightarrow> host" where
  "clearTimeout t h = h\<lparr>timeouts := filter (\<lambda>(i, d, a). i \<noteq> t) (timeouts h)\<rparr>"

definition setTimeout :: "action \<Rightarrow> jsnum \<Rightarrow> host \<Rightarrow> host" where
  "setTimeout a d h =
     h\<lparr>timeouts := timeouts h @ [(nextTimeout h, d, a)], nextTimeout := nextTimeout h + 1\<rparr>"

subsection \<open>Metronome\<close>

text \<open>A handle is a number or \<open>null\<close>; the test \<open>if (this.timerID)\<close> passes for a number other
  than \<open>0\<close>.\<close>

definition stopMetronome :: "state \<Rightarrow> state" where
  "stopMetronome s =
     (case s of (e, h) \<Rightarrow>
        (let e1 = e\<lparr>isMetronomePlaying := False\<rparr>
         in case timerID e1 of
              None \<Rightarrow> (e1, h)
            | Some t \<Rightarrow>
                (if t \<noteq> 0 then (e1\<lparr>timerID := None\<rparr>, clearTimeout t h) else (e1, h))))"

definition updateBPM :: "jsnum \<Rightarrow> state \<Rightarrow> state" where
  "updateBPM b s = (case s of (e, h) \<Rightarrow> (e\<lparr>bpm := b\<rparr>, h))"

definition nextNote :: "engine \<Rightarrow> engine" where
  "nextNote e =
     (let secondsPerBeat = js_div (Fin 60) (bpm e);
          e1 = e\<lparr>nextNoteTime := js_add (nextNoteTime e) secondsPerBeat\<rparr>;
          e2 = e1\<lparr>currentBeatInBar := currentBeatInBar e1 + 1\<rparr>
      in if currentBeatInBar e2 > 4 then e2\<lparr>currentBeatInBar := 1\<rparr> else e2)"

text \<open>
  \<open>scheduleNote\<close> at audio-clock time \<open>now\<close>. The gain ramp and \<open>osc.start\<close> reject a time
  that is negative or not finite, before the timeout for the callback is armed.
\<close>

definition scheduleNote :: "int \<Rightarrow> jsnum \<Rightarrow> real \<Rightarrow> state \<Rightarrow> state outcome" where
  "scheduleNote beatNumber time now s =
     (case s of (e, h) \<Rightarrow>
        (let e1 = getContext e
         in case time of
              Fin t \<Rightarrow>
                (if t < 0 then Threw (e1, h)
                 else
                   (let h1 = h\<lparr>oscillators :=
                                  oscillators h @ [(if beatNumber = 1 then 1000 else 800, time)]\<rparr>;
                        delay = js_max (Fin 0) (js_mul (js_sub time (Fin now)) (Fin 1000))
                    in Returned (e1, setTimeout (NotifyBeat beatNumber) delay h1)))
            | _ \<Rightarrow> Threw (e1, h)))"

text \<open>The \<open>while\<close> loop of \<open>scheduler\<close>; \<open>None\<close> is a loop that never ends.\<close>

partial_function (option) scheduler_loop :: "real \<Rightarrow> state \<Rightarrow> state outcome option" where
  "scheduler_loop now s =
     (if js_lt (nextNoteTime (fst s)) (Fin (now + 0.1)) then
        (case scheduleNote
                (if currentBeatInBar (fst s) = 0 then 1 else currentBeatInBar (fst s))
                (nextNoteTime (fst s)) now s of
           Threw s' \<Rightarrow> Some (Threw s')
         | Returned s' \<Rightarrow> scheduler_loop now (nextNote (fst s'), snd s'))
      else Some (Returned (getContext (fst s), snd s)))"

definition scheduler :: "real \<Rightarrow> state \<Rightarrow> state outcome option" where
  "scheduler now s =
     (case scheduler_loop now s of
        None \<Rightarrow> None
      | Some (Threw s') \<Rightarrow> Some (Threw s')
      | Some (Returned (e, h)) \<Rightarrow>
          Some (Returned
            (if isMetronomePlaying e
             then (e\<lparr>timerID := Some (nextTimeout h)\<rparr>, setTimeout RunScheduler (Fin 25) h)
             else (e, h))))"

definition startMetronome :: "jsnum \<Rightarrow> nat \<Rightarrow> real \<Rightarrow> state \<Rightarrow> state outcome option" where
  "startMetronome b onBeat now s =
     (case s of (e, h) \<Rightarrow>
        scheduler now
          ((getContext e)\<lparr>bpm := b, beatCallback := Some onBeat, isMetronomePlaying := True,
             currentBeatInBar := 0, nextNoteTime := Fin (now + 0.1)\<rparr>, h))"

text \<open>
  The browser runs a pending timeout at audio-clock time \<open>now\<close>: the scheduler pass, or the
  callback armed by \<open>scheduleNote\<close>, which hands the beat number to the application when the
  metronome is playing.
\<close>

definition fireTimeout :: "nat \<Rightarrow> real \<Rightarrow> state \<Rightarrow> state outcome option" where
  "fireTimeout t now s =
     (case s of (e, h) \<Rightarrow>
        (case find (\<lambda>(i, d, a). i = t) (timeouts h) of
           None \<Rightarrow> Some (Returned s)
         | Some (i, d, a) \<Rightarrow>
             (case a of
                RunScheduler \<Rightarrow> scheduler now (e, clearTimeout t h)
              | NotifyBeat beatNumber \<Rightarrow>
                  Some (Returned
                    (if isMetronomePlaying e \<and> beatCallback e \<noteq> None
                     then (e, (clearTimeout t h)\<lparr>beatLog := beatLog h @ [beatNumber]\<rparr>)
                     else (e, clearTimeout t h))))))"

text \<open>A sequence of calls and browser events, each starting in the state the one before left.\<close>

fun events :: "(state \<Rightarrow> state outcome option) list \<Rightarrow> state \<Rightarrow> state option" where
  "events [] s = Some s"
| "events (ev # evs) s = (case ev s of None \<Rightarrow> None | Some r \<Rightarrow> events evs (state_of r))"

subsection \<open>Tuner\<close>

text \<open>
  \<open>detectPitch\<close> on the frame \<open>buf\<close> the analyser delivers, with the context's sample rate.
\<close>

definition detectPitch :: "real list \<Rightarrow> real \<Rightarrow> state \<Rightarrow> state" where
  "detectPitch buf sampleRate s =
     (case s of (e, h) \<Rightarrow>
        (if \<not> analyser e then s
         else
           (let freq = autoCorrelate buf sampleRate;
                h1 = (if js_gt freq (Fin (- 1)) \<and> tunerCallback e \<noteq> None
                      then h\<lparr>pitchLog := pitchLog h @
                              [(freq, note (freqToNote freq), cents (freqToNote freq))]\<rparr>
                      else h)
            in ((getContext e)\<lparr>tunerFrameId := Some (nextFrame h1)\<rparr>,
                h1\<lparr>frames := frames h1 @ [nextFrame h1], nextFrame := nextFrame h1 + 1\<rparr>))))"

text \<open>
  \<open>startTuner\<close>: \<open>mic\<close> is what \<open>getUserMedia\<close> settles with, a stream or a refusal
  (\<open>None\<close>, caught and logged). The call is taken as one step, the wait for the microphone
  included.
\<close>

definition startTuner :: "nat \<Rightarrow> nat option \<Rightarrow> real list \<Rightarrow> real \<Rightarrow> state \<Rightarrow> state" where
  "startTuner callback mic buf sampleRate s =
     (case s of (e, h) \<Rightarrow>
        (let e1 = (getContext e)\<lparr>tunerCallback := Some callback\<rparr>
         in case mic of
              None \<Rightarrow> (e1, h)
            | Some stream \<Rightarrow>
                detectPitch buf sampleRate
                  (e1\<lparr>microphoneStream := Some stream, sourceNode := True, analyser := True\<rparr>,
                   h\<lparr>liveStreams := liveStreams h @ [stream]\<rparr>)))"

definition stopTuner :: "state \<Rightarrow> state" where
  "stopTuner s =
     (case s of (e, h) \<Rightarrow>
        (let h1 = (case tunerFrameId e of
                     None \<Rightarrow> h
                   | Some f \<Rightarrow>
                       (if f \<noteq> 0 then h\<lparr>frames := removeAll f (frames h)\<rparr> else h));
             h2 = (case microphoneStream e of
                     None \<Rightarrow> h1
                   | Some stream \<Rightarrow> h1\<lparr>liveStreams := removeAll stream (liveStreams h1)\<rparr>)
         in (e, h2)))"

text \<open>The browser runs a requested animation frame: the next \<open>detectPitch\<close>.\<close>

definition fireFrame :: "nat \<Rightarrow> real list \<Rightarrow> real \<Rightarrow> state \<Rightarrow> state" where
  "fireFrame f buf sampleRate s =
     (case s of (e, h) \<Rightarrow>
        (if f \<in> set (frames h)
         then detectPitch buf sampleRate (e, h\<lparr>frames := removeAll f (frames h)\<rparr>)
         else s))"

section \<open>Telemetry lines of the remote link\<close>

text \<open>
  The string methods the handler in src/App.tsx uses, for ASCII text: \<open>trim\<close>, \<open>split\<close> at a
  one-character separator, \<open>startsWith\<close>, reading an array element that may be missing, and
  \<open>parseInt\<close> and \<open>parseFloat\<close>, which read the longest numeric prefix after leading white
  space and give NaN when there is none. The value read is the exact decimal: it is not
  rounded to a double, and a literal too large for a double stays finite.
\<close>

definition is_space :: "char \<Rightarrow> bool" where
  "is_space c = (c \<in> set [CHR '' '', CHR 0x09, CHR 0x0A, CHR 0x0B, CHR 0x0C, CHR 0x0D])"

definition trim :: "string \<Rightarrow> string" where
  "trim s = rev (dropWhile is_space (rev (dropWhile is_space s)))"

fun split :: "string \<Rightarrow> char \<Rightarrow> string list" where
  "split [] sep = [[]]"
| "split (c # cs) sep =
     (if c = sep then [] # split cs sep
      else (case split cs sep of [] \<Rightarrow> [[c]] | p # ps \<Rightarrow> (c # p) # ps))"

definition startsWith :: "string \<Rightarrow> string \<Rightarrow> bool" where
  "startsWith s p = (take (length p) s = p)"

definition nth_opt :: "'a list \<Rightarrow> nat \<Rightarrow> 'a option" where
  "nth_opt xs i = (if i < length xs then Some (xs ! i) else None)"

definition digit_val :: "nat \<Rightarrow> char \<Rightarrow> nat option" where
  "digit_val radix c =
     (let n = (of_char c :: nat);
          v = (if 48 \<le> n \<and> n \<le> 57 then Some (n - 48)
               else if 97 \<le> n \<and> n \<le> 122 then Some (n - 87)
               else if 65 \<le> n \<and> n \<le> 90 then Some (n - 55)
               else None)
      in case v of None \<Rightarrow> None | Some d \<Rightarrow> (if d < radix then Some d else None))"

definition is_digit :: "nat \<Rightarrow> char \<Rightarrow> bool" where
  "is_digit radix c = (digit_val radix c \<noteq> None)"

definition digits_val :: "nat \<Rightarrow> string \<Rightarrow> nat" where
  "digits_val radix ds =
     foldl (\<lambda>a c. a * radix + (case digit_val radix c of None \<Rightarrow> 0 | Some d \<Rightarrow> d)) 0 ds"

definition strip_sign :: "string \<Rightarrow> real \<times> string" where
  "strip_sign s =
     (case s of
        [] \<Rightarrow> (1, s)
      | c # cs \<Rightarrow> (if c = CHR ''-'' then (- 1, cs) else if c = CHR ''+'' then (1, cs) else (1, s)))"

definition parseInt :: "string \<Rightarrow> jsnum" where
  "parseInt s =
     (case strip_sign (dropWhile is_space s) of (sign, s2) \<Rightarrow>
        (let hex = (startsWith s2 ''0x'' \<or> startsWith s2 ''0X'');
             radix = (if hex then 16 else 10);
             ds = takeWhile (is_digit radix) (if hex then drop 2 s2 else s2)
         in if ds = [] then NaN else Fin (sign * real (digits_val radix ds))))"

definition exponent :: "string \<Rightarrow> int" where
  "exponent r =
     (case r of
        [] \<Rightarrow> 0
      | c # cs \<Rightarrow>
          (if c = CHR ''e'' \<or> c = CHR ''E'' then
             (case strip_sign cs of (esign, r') \<Rightarrow>
                (if esign < 0 then - int (digits_val 10 (takeWhile (is_digit 10) r'))
                 else int (digits_val 10 (takeWhile (is_digit 10) r'))))
           else 0))"

definition parseFloat :: "string \<Rightarrow> jsnum" where
  "parseFloat s =
     (case strip_sign (dropWhile is_space s) of (sign, s2) \<Rightarrow>
        (if startsWith s2 ''Infinity'' then js_inf sign
         else
           (let ip = takeWhile (is_digit 10) s2;
                r1 = dropWhile (is_digit 10) s2;
                dot = startsWith r1 ''.'';
                fp = (if dot then takeWhile (is_digit 10) (tl r1) else []);
                r2 = (if dot then dropWhile (is_digit 10) (tl r1) else r1);
                mantissa = real (digits_val 10 ip) + real (digits_val 10 fp) / 10 ^ length fp;
                ex = exponent r2
            in if ip = [] \<and> fp = [] then NaN
               else Fin (sign * mantissa *
                         (if 0 \<le> ex then 10 ^ nat ex else 1 / 10 ^ nat (- ex))))))"

text \<open>
  The handler registered with \<open>bluetoothService.onDataReceived\<close>. \<open>field_value\<close> is
  \<open>parts.find(p => p.startsWith(key))?.split(':')[1]\<close>, \<open>None\<close> for \<open>undefined\<close>;
  \<open>or_else\<close> is \<open>||\<close> on a string that may be \<open>undefined\<close> (the empty string is falsy).
  The result is the state setter the handler calls, if any.
\<close>

record TunerData =
  frequency :: jsnum
  noteName :: string
  cents :: jsnum
  isActive :: bool

datatype ui_update = SetCurrentBeat jsnum | SetTunerData TunerData | NoUpdate

definition field_value :: "string list \<Rightarrow> string \<Rightarrow> string option" where
  "field_value parts key =
     (case find (\<lambda>p. startsWith p key) parts of
        None \<Rightarrow> None
      | Some p \<Rightarrow> nth_opt (split p CHR '':'') 1)"

definition or_else :: "string option \<Rightarrow> string \<Rightarrow> string" where
  "or_else v d = (case v of None \<Rightarrow> d | Some s \<Rightarrow> (if s = [] then d else s))"

definition onDataReceived :: "string \<Rightarrow> ui_update" where
  "onDataReceived data =
     (let parts = split (trim data) CHR ''|''
      in if startsWith data ''BEAT:'' then
           SetCurrentBeat
             (parseInt (case nth_opt (split data CHR '':'') 1 of
                          None \<Rightarrow> ''undefined'' | Some v \<Rightarrow> v))
         else if startsWith data ''FREQ:'' then
           (let freq = parseFloat (or_else (field_value parts ''FREQ:'') ''0'');
                note = or_else (field_value parts ''NOTE:'') '''';
                cents = parseInt (or_else (field_value parts ''CENTS:'') ''0'')
            in SetTunerData
                 \<lparr>frequency = freq, noteName = note, cents = cents, isActive = True\<rparr>)
         else NoUpdate)"

section \<open>Inputs and observations of the statements\<close>

text \<open>A newly constructed engine in a browser with nothing pending.\<close>

definition fresh :: state where
  "fresh = (new_engine, new_host)"

text \<open>A frame of \<open>n\<close> samples of a sine wave of frequency \<open>f\<close> and amplitude 1.\<close>

definition sine_frame :: "real \<Rightarrow> real \<Rightarrow> nat \<Rightarrow> real list" where
  "sine_frame f sampleRate n = map (\<lambda>i. sin (2 * pi * f * real i / sampleRate)) [0..<n]"

text \<open>Whether a call ended by throwing.\<close>

fun threw :: "'a outcome \<Rightarrow> bool" where
  "threw (Threw s) = True"
| "threw (Returned s) = False"


text \<open>The number of scheduler passes the browser has pending.\<close>

definition scheduler_passes :: "host \<Rightarrow> nat" where
  "scheduler_passes h = length (filter (\<lambda>(i, d, a). a = RunScheduler) (timeouts h))"

text \<open>
  The first 350 ms of a metronome started at 240 beats per minute at audio-clock time 0: the
  scheduler pass runs every 25 ms, and each callback armed by \<open>scheduleNote\<close> runs when its
  delay has passed (the first click is due at 0.1 s, the second at 0.35 s). The handles are the
  ones the browser gave out, in order.
\<close>

definition first_polls :: "(state \<Rightarrow> state outcome option) list" where
  "first_polls =
     [startMetronome (Fin 240) 1 0,
      fireTimeout 1 0.025, fireTimeout 3 0.05, fireTimeout 4 0.075, fireTimeout 5 0.1,
      fireTimeout 2 0.1,
      fireTimeout 6 0.125, fireTimeout 7 0.15, fireTimeout 8 0.175, fireTimeout 9 0.2,
      fireTimeout 10 0.225, fireTimeout 11 0.25, fireTimeout 12 0.275, fireTimeout 14 0.3,
      fireTimeout 15 0.325, fireTimeout 16 0.35,
      fireTimeout 13 0.35]"

section \<open>Autocorrelation\<close>

lemma fold_add_nonneg:
  "(\<And>i. 0 \<le> f i) \<Longrightarrow> (0::real) \<le> acc \<Longrightarrow> 0 \<le> fold (\<lambda>i c. c + f i) is acc"
  by (induction "is" arbitrary: acc) simp_all

lemma fold_add_zero:
  "(\<And>i. f i = 0) \<Longrightarrow> fold (\<lambda>i c. c + f i) is (acc::real) = acc"
  by (induction "is" arbitrary: acc) simp_all

lemma abs_diff_sum_lag0: "abs_diff_sum buf 0 = 0"
  unfolding abs_diff_sum_def by (rule fold_add_zero) simp

lemma abs_diff_sum_nonneg: "0 \<le> abs_diff_sum buf offset"
  unfolding abs_diff_sum_def by (rule fold_add_nonneg) simp_all

text \<open>Lag 0 has correlation 1, which passes both tests and becomes the best.\<close>

lemma scan_body_lag0:
  "0 < length buf \<Longrightarrow>
   scan_body buf 0 (- 1) 0 False cs = Continue 0 1 True (cs[0 := 1])"
  by (simp add: scan_body_def abs_diff_sum_lag0)

text \<open>No correlation exceeds 1, so lag 1 takes the branch that returns.\<close>

lemma scan_body_lag1:
  "0 < length buf \<Longrightarrow>
   scan_body buf (Suc 0) 0 1 True cs =
     Return 0 (cs[Suc 0 := 1 - abs_diff_sum buf (Suc 0) / real (length buf)])"
proof -
  assume n: "0 < length buf"
  have "0 \<le> abs_diff_sum buf (Suc 0) / real (length buf)"
    using abs_diff_sum_nonneg[of buf "Suc 0"] by simp
  then show ?thesis by (simp add: scan_body_def Let_def)
qed

lemma scan_refines_lag0:
  assumes "2 \<le> length buf"
  shows "scan buf 0 (- 1) 0 False cs =
           Refine 0 (cs[0 := 1, Suc 0 := 1 - abs_diff_sum buf (Suc 0) / real (length buf)])"
proof -
  have n: "0 < length buf" "Suc 0 < length buf" using assms by auto
  have "scan buf 0 (- 1) 0 False cs = scan buf (Suc 0) 0 1 True (cs[0 := 1])"
    by (subst scan.simps) (use n in \<open>simp add: scan_body_lag0\<close>)
  also have "\<dots> = Refine 0 (cs[0 := 1, Suc 0 := 1 - abs_diff_sum buf (Suc 0) / real (length buf)])"
    by (subst scan.simps) (use n in \<open>simp add: scan_body_lag1\<close>)
  finally show ?thesis .
qed

lemma arr_get_negative: "r < 0 \<Longrightarrow> arr_get xs (Fin r) = None"
  by (simp add: arr_get_def)

lemma js_add_NaN_right: "js_add x NaN = NaN"
  by (cases x) simp_all

lemma js_mul_NaN_right: "js_mul x NaN = NaN"
  by (cases x) simp_all

lemma js_div_NaN_right: "js_div x NaN = NaN"
  by (cases x) simp_all

text \<open>Every frame of two or more samples that passes the gate gives NaN.\<close>

lemma autoCorrelate_NaN:
  assumes "2 \<le> length buf" and "\<not> js_lt (frame_rms buf) (Fin 0.01)"
  shows "autoCorrelate buf sampleRate = NaN"
  using assms
  by (simp add: autoCorrelate_def scan_refines_lag0 to_number_def js_sub_def Let_def
      arr_get_negative js_add_NaN_right js_mul_NaN_right js_div_NaN_right)

lemma sum_squares_ge:
  assumes "k < length buf"
  shows "buf ! k * buf ! k \<le> sum_squares buf"
proof -
  have step: "fold (\<lambda>i rms. rms + buf ! i * buf ! i) is acc = acc + (\<Sum>i\<leftarrow>is. buf ! i * buf ! i)"
    for "is" and acc :: real
    by (induction "is" arbitrary: acc) simp_all
  have "buf ! k * buf ! k \<le> (\<Sum>i\<leftarrow>[0..<length buf]. buf ! i * buf ! i)"
    by (rule member_le_sum_list) (use assms in auto)
  then show ?thesis by (simp add: sum_squares_def step)
qed

text \<open>Sample 50 of the 220 Hz frame is close to the crest of the wave.\<close>

lemma sine_sample_50: "1 / 2 \<le> sin (2 * pi * 220 * real (50::nat) / 44100)"
proof -
  have "sin (pi / 6) \<le> sin (2 * pi * 220 * real (50::nat) / 44100)"
    by (rule sin_monotone_2pi_le) (use pi_gt_zero in \<open>simp_all add: field_simps\<close>)
  then show ?thesis by (simp add: sin_30)
qed

lemma sine_frame_gate: "\<not> js_lt (frame_rms (sine_frame 220 44100 2048)) (Fin 0.01)"
proof -
  let ?buf = "sine_frame 220 44100 2048"
  let ?x = "sin (2 * pi * 220 * real (50::nat) / 44100)"
  have len: "length ?buf = 2048" by (simp add: sine_frame_def)
  have x: "?buf ! 50 = ?x" by (simp add: sine_frame_def)
  have "1 / 4 \<le> ?x * ?x"
    using sine_sample_50 mult_mono[of "1/2" ?x "1/2" ?x] by simp
  also have "\<dots> \<le> sum_squares ?buf"
    using sum_squares_ge[of 50 ?buf] len x by simp
  finally have s: "1 / 4 \<le> sum_squares ?buf" .
  then have "(1 / 100)\<^sup>2 \<le> sum_squares ?buf / 2048" by (simp add: power2_eq_square)
  then have "1 / 100 \<le> sqrt (sum_squares ?buf / 2048)"
    by (rule real_le_rsqrt)
  moreover have "0 \<le> sum_squares ?buf / 2048" using s by simp
  ultimately show ?thesis by (simp add: frame_rms_def len)
qed

text \<open>
  Claim C1. A frame holding a 220 Hz sine wave that passes the noise gate should give an
  estimate within 1% of 220 Hz, named A. The code gives none: for the 2048-sample frame of a
  220 Hz sine at 44100 Hz, which passes the gate, \<open>autoCorrelate\<close> returns NaN, the test
  \<open>freq > -1\<close> in \<open>detectPitch\<close> fails, and the tuner callback receives nothing, neither from the
  \<open>detectPitch\<close> that \<open>startTuner\<close> runs nor from the one of the next animation frame.
\<close>

theorem sine_220_no_estimate:
  "autoCorrelate (sine_frame 220 44100 2048) 44100 = NaN
   \<and> \<not> js_gt (autoCorrelate (sine_frame 220 44100 2048) 44100) (Fin (- 1))
   \<and> pitchLog (snd (startTuner 1 (Some 1) (sine_frame 220 44100 2048) 44100 fresh)) = []
   \<and> pitchLog (snd (fireFrame 1 (sine_frame 220 44100 2048) 44100
        (startTuner 1 (Some 1) (sine_frame 220 44100 2048) 44100 fresh))) = []"
proof -
  have "2 \<le> length (sine_frame 220 44100 2048)" by (simp add: sine_frame_def)
  then have nan: "autoCorrelate (sine_frame 220 44100 2048) 44100 = NaN"
    using sine_frame_gate by (rule autoCorrelate_NaN)
  then show ?thesis
    by (simp add: js_gt_def startTuner_def detectPitch_def fireFrame_def Let_def fresh_def
        new_engine_def new_host_def getContext_def)
qed

text \<open>
  Claim C9. In \<open>autoCorrelate\<close> the indices \<open>best_offset - 1\<close> and \<open>best_offset + 1\<close> read by
  the refinement expression should lie inside the \<open>correlations\<close> array. For every frame of two
  or more samples they do not: lag 0 computes correlation 1 and fixes \<open>best_offset = 0\<close> (as
  the claim notes), lag 1 then takes the returning branch, and the expression reads index
  \<open>-1\<close>, which is outside the array and gives \<open>undefined\<close>.
\<close>

theorem refinement_reads_index_minus_one:
  assumes "2 \<le> length buf"
  shows "abs_diff_sum buf 0 = 0
    \<and> scan_body buf 0 (- 1) 0 False (replicate (length buf) 0) =
        Continue 0 1 True ((replicate (length buf) 0)[0 := 1])
    \<and> (\<exists>correlations.
          scan buf 0 (- 1) 0 False (replicate (length buf) 0) = Refine 0 correlations
          \<and> length correlations = length buf
          \<and> arr_get correlations (Fin (real_of_int 0 - 1)) = None)"
proof -
  have "0 < length buf" using assms by auto
  then show ?thesis
    using assms by (simp add: abs_diff_sum_lag0 scan_body_lag0 scan_refines_lag0 arr_get_negative)
qed

theorem refinement_reads_index_minus_one_witness:
  "2 \<le> length [1 / 2, - (1 / 2), 1 / 2, - (1 / 2 :: real)]
   \<and> \<not> js_lt (frame_rms [1 / 2, - (1 / 2), 1 / 2, - (1 / 2)]) (Fin 0.01)
   \<and> (\<exists>correlations.
         scan [1 / 2, - (1 / 2), 1 / 2, - (1 / 2)] 0 (- 1) 0 False (replicate 4 0) =
           Refine 0 correlations
         \<and> arr_get correlations (Fin (- 1)) = None)"
proof -
  have l: "2 \<le> length [1 / 2, - (1 / 2), 1 / 2, - (1 / 2 :: real)]" by simp
  have "sum_squares [1 / 2, - (1 / 2), 1 / 2, - (1 / 2)] = 1"
    by (simp add: sum_squares_def upt_rec)
  then have g: "\<not> js_lt (frame_rms [1 / 2, - (1 / 2), 1 / 2, - (1 / 2)]) (Fin 0.01)"
    by (simp add: frame_rms_def real_sqrt_divide)
  show ?thesis
    using refinement_reads_index_minus_one[OF l] g by (simp add: eval_nat_numeral) blast
qed

section \<open>Note mapping\<close>

text \<open>
  At 440 Hz every step is exact: the quotient is 1, its logarithm 0, the pitch 69, the index 9.
\<close>

lemma freqToNote_440: "freqToNote (Fin 440) = \<lparr>note = Some ''A'', cents = Fin 0\<rparr>"
  by (simp add: freqToNote_def pitch_of_def Let_def js_sub_def arr_get_def trunc_def
      noteStrings_def)

text \<open>At \<open>+Infinity\<close> the pitch is infinite; its remainder and its difference with itself are NaN.\<close>

lemma freqToNote_infinity: "freqToNote PInf = \<lparr>note = None, cents = NaN\<rparr>"
  by (simp add: freqToNote_def pitch_of_def Let_def js_sub_def arr_get_def js_inf_def)

text \<open>
  Claim C7. For a frequency that is zero or negative, \<open>freqToNote\<close> should return no note and
  zero cents rather than an undefined or NaN result. It returns no note (\<open>undefined\<close>), and
  its cents are NaN, not zero: at frequency 0 the pitch is \<open>-Infinity\<close>, whose remainder and
  whose difference with itself are NaN.
\<close>

theorem freqToNote_zero_counterexample:
  "freqToNote (Fin 0) = \<lparr>note = None, cents = NaN\<rparr>
   \<and> note_result.cents (freqToNote (Fin 0)) \<noteq> Fin 0"
  by (simp add: freqToNote_def pitch_of_def Let_def js_sub_def arr_get_def js_inf_def)

text \<open>
  Claim C7 as amended. For every frequency that is zero or negative, \<open>freqToNote\<close> returns an
  absent note (\<open>undefined\<close>) and NaN cents.
\<close>

theorem freqToNote_nonpositive:
  assumes "f \<le> 0"
  shows "freqToNote (Fin f) = \<lparr>note = None, cents = NaN\<rparr>"
  using assms
  by (cases "f = 0")
     (simp_all add: freqToNote_def pitch_of_def Let_def js_sub_def arr_get_def js_inf_def)

theorem freqToNote_nonpositive_witness:
  "(- 1 :: real) \<le> 0 \<and> freqToNote (Fin (- 1)) = \<lparr>note = None, cents = NaN\<rparr>"
  using freqToNote_nonpositive[of "- 1"] by simp

section \<open>Metronome\<close>

lemmas engine_defs = fresh_def new_engine_def new_host_def startMetronome_def scheduler_def
  scheduleNote_def nextNote_def getContext_def setTimeout_def clearTimeout_def fireTimeout_def
  js_max_def js_sub_def Let_def stopMetronome_def updateBPM_def

text \<open>A pass that finds the next note outside the window schedules nothing.\<close>

lemma scheduler_loop_idle:
  "\<not> js_lt (nextNoteTime e) (Fin (now + 0.1)) \<Longrightarrow>
   scheduler_loop now (e, h) = Some (Returned (getContext e, h))"
  by (subst scheduler_loop.simps) simp

text \<open>
  \<open>startMetronome\<close> puts the first note exactly at the edge of the window, so its own pass
  schedules nothing; it arms one scheduler pass and clears none.
\<close>

lemma startMetronome_arms:
  "startMetronome b onBeat now (e, h) =
     Some (Returned
       (e\<lparr>audioContext := True, bpm := b, beatCallback := Some onBeat,
           isMetronomePlaying := True, currentBeatInBar := 0,
           nextNoteTime := Fin (now + 0.1), timerID := Some (nextTimeout h)\<rparr>,
        setTimeout RunScheduler (Fin 25) h))"
  by (simp add: startMetronome_def scheduler_def scheduler_loop_idle getContext_def)

lemma detectPitch_requests_frame:
  "analyser e \<Longrightarrow>
   frames (snd (detectPitch buf sampleRate (e, h))) = frames h @ [nextFrame h]"
  by (simp add: detectPitch_def Let_def)

lemma startTuner_requests_frame:
  "frames (snd (startTuner cb (Some stream) buf sampleRate (e, h))) = frames h @ [nextFrame h]"
  by (simp add: startTuner_def Let_def detectPitch_requests_frame)

text \<open>The beat cursor stays within the bar once it has left its initial 0.\<close>

lemma nextNote_cursor_range:
  "0 \<le> currentBeatInBar e \<Longrightarrow> currentBeatInBar e \<le> 4 \<Longrightarrow>
   1 \<le> currentBeatInBar (nextNote e) \<and> currentBeatInBar (nextNote e) \<le> 4"
  by (simp add: nextNote_def Let_def)

text \<open>
  Claim C2. The beat numbers handed to \<open>onBeat\<close> from the start of the metronome should be
  1, 2, 3, 4, 1, ... with no value repeated consecutively. In the code the cursor starts at 0,
  which is scheduled as beat 1, and the increment that follows makes it 1, which is scheduled
  as beat 1 again: at 240 beats per minute, polled every 25 ms, the first two values handed to
  \<open>onBeat\<close> are 1 and 1, and both clicks have the accent of the downbeat (1000 Hz).
\<close>

theorem first_two_beats_are_one:
  "map_option (beatLog \<circ> snd) (events first_polls fresh) = Some [1, 1]
   \<and> map_option (oscillators \<circ> snd) (events first_polls fresh) =
       Some [(1000, Fin 0.1), (1000, Fin 0.35)]"
  by (simp add: first_polls_def engine_defs scheduler_loop.simps)

text \<open>
  Claim C3. Calling \<open>startMetronome\<close> or \<open>startTuner\<close> while already running should cancel the
  pending loop first, so that at most one scheduling loop and one detection loop are active.
  Neither cancels anything: after two calls of \<open>startMetronome\<close> on a new engine two scheduler
  passes are pending, and after two calls of \<open>startTuner\<close> (microphone granted) two animation
  frames are pending, whatever the arguments.
\<close>

theorem second_start_adds_loop:
  "map_option (scheduler_passes \<circ> snd)
     (events [startMetronome b onBeat now, startMetronome b' onBeat' now'] fresh) = Some 2
   \<and> length (frames (snd (startTuner cb' (Some stream') buf' sampleRate'
         (startTuner cb (Some stream) buf sampleRate fresh)))) = 2"
proof -
  obtain e h where s: "startTuner cb (Some stream) buf sampleRate fresh = (e, h)"
    by (cases "startTuner cb (Some stream) buf sampleRate fresh")
  have "frames h = [1]"
    using startTuner_requests_frame[of cb stream buf sampleRate new_engine new_host] s
    by (simp add: fresh_def new_host_def)
  then have "length (frames (snd (startTuner cb' (Some stream') buf' sampleRate' (e, h)))) = 2"
    by (simp add: startTuner_requests_frame)
  then have tuner: "length (frames (snd (startTuner cb' (Some stream') buf' sampleRate'
         (startTuner cb (Some stream) buf sampleRate fresh)))) = 2"
    by (simp add: s)
  have "map_option (scheduler_passes \<circ> snd)
     (events [startMetronome b onBeat now, startMetronome b' onBeat' now'] fresh) = Some 2"
    by (simp add: fresh_def startMetronome_arms scheduler_passes_def setTimeout_def new_host_def)
  then show ?thesis using tuner by simp
qed

text \<open>
  Claim C4. After \<open>stopMetronome\<close> the beat cursor should equal 1. The code does not touch the
  cursor on stop: stopped after the second click of the run above, the cursor is 2.
\<close>

theorem stop_cursor_counterexample:
  "map_option (currentBeatInBar \<circ> fst \<circ> stopMetronome) (events first_polls fresh) = Some 2"
  by (simp add: first_polls_def engine_defs scheduler_loop.simps)

text \<open>
  Claim C4 as amended. \<open>stopMetronome\<close> leaves the beat cursor as it is and clears the playing
  flag; the cursor is reset by the next \<open>startMetronome\<close>, to 0, the value scheduled as beat 1.
\<close>

theorem stop_keeps_cursor:
  "currentBeatInBar (fst (stopMetronome s)) = currentBeatInBar (fst s)
   \<and> \<not> isMetronomePlaying (fst (stopMetronome s))
   \<and> map_option (currentBeatInBar \<circ> fst \<circ> state_of) (startMetronome b onBeat now s) = Some 0"
  by (cases s) (simp add: stopMetronome_def startMetronome_arms Let_def split: option.splits)

text \<open>
  Claim C5. A tempo of 0 or below given to \<open>startMetronome\<close> or \<open>updateBPM\<close> should be
  rejected or clamped, so that the stored tempo is always strictly positive. The engine stores
  it as given. Started with tempo 0 it holds tempo 0, and after the first click the next note
  is at \<open>+Infinity\<close> while the metronome still counts as playing: no further click comes.
  Started with tempo \<open>-1\<close>, the first scheduler pass moves the next note to a negative time,
  the audio node refuses it, the pass throws and no pass is pending any more, again with the
  metronome still flagged as playing. (The tempo reaches 0 and \<open>-1\<close> through the minus button
  of the application, which passes \<open>bpm - 1\<close> on; only the slider keeps to 40..240.)
\<close>

theorem nonpositive_tempo_accepted:
  "map_option (bpm \<circ> fst \<circ> state_of) (startMetronome (Fin 0) 1 0 fresh) = Some (Fin 0)
   \<and> bpm (fst (updateBPM (Fin (- 1)) fresh)) = Fin (- 1)
   \<and> \<not> js_gt (Fin 0) (Fin 0) \<and> \<not> js_gt (Fin (- 1)) (Fin 0)
   \<and> map_option (\<lambda>s. (nextNoteTime (fst s), isMetronomePlaying (fst s)))
        (events [startMetronome (Fin 0) 1 0, fireTimeout 1 0.025] fresh) = Some (PInf, True)
   \<and> map_option threw
        (Option.bind (events [startMetronome (Fin (- 1)) 1 0] fresh) (fireTimeout 1 0.025)) =
       Some True
   \<and> map_option (\<lambda>s. (isMetronomePlaying (fst s), scheduler_passes (snd s)))
        (events [startMetronome (Fin (- 1)) 1 0, fireTimeout 1 0.025] fresh) = Some (True, 0)"
  by (simp add: engine_defs scheduler_loop.simps js_gt_def js_inf_def scheduler_passes_def)

subsection \<open>The catch-up loop under an infinite tempo\<close>





section \<open>Telemetry parsing\<close>

lemmas string_defs = onDataReceived_def Let_def trim_def is_space_def startsWith_def
  field_value_def nth_opt_def or_else_def parseFloat_def parseInt_def strip_sign_def
  digits_val_def digit_val_def is_digit_def exponent_def js_inf_def

lemma find_filter:
  "find P ps = (case filter P ps of [] \<Rightarrow> None | x # xs \<Rightarrow> Some x)"
  by (induction ps) simp_all

lemma field_value_unique:
  "filter (\<lambda>q. startsWith q key) parts = [p] \<Longrightarrow>
   field_value parts key = nth_opt (split p CHR '':'') 1"
  by (simp add: field_value_def find_filter)

lemma field_value_absent:
  "filter (\<lambda>q. startsWith q key) parts = [] \<Longrightarrow> field_value parts key = None"
  by (simp add: field_value_def find_filter)

lemma parse_defaults: "parseFloat ''0'' = Fin 0" "parseInt ''0'' = Fin 0"
  by (simp_all add: string_defs)

lemma onDataReceived_tuner:
  assumes "startsWith data ''FREQ:''"
  shows "onDataReceived data =
     SetTunerData
       \<lparr>frequency = parseFloat (or_else (field_value (split (trim data) CHR ''|'') ''FREQ:'') ''0''),
        noteName = or_else (field_value (split (trim data) CHR ''|'') ''NOTE:'') '''',
        cents = parseInt (or_else (field_value (split (trim data) CHR ''|'') ''CENTS:'') ''0''),
        isActive = True\<rparr>"
proof -
  have "\<not> startsWith data ''BEAT:''" using assms by (auto simp: startsWith_def)
  then show ?thesis using assms by (simp add: onDataReceived_def Let_def)
qed

text \<open>
  Claim C8. The FREQ, NOTE and CENTS fields of a tuner line should be parsed whatever their
  order, a reordered or partial line still giving an estimate. The handler looks at a line
  only when the line starts with \<open>FREQ:\<close>: with NOTE first, or without FREQ, the line gives
  no estimate.
\<close>

theorem reordered_line_counterexample:
  "onDataReceived ''NOTE:A|FREQ:440.0|CENTS:0'' = NoUpdate
   \<and> onDataReceived ''NOTE:A|CENTS:0'' = NoUpdate"
  by (simp add: string_defs)


text \<open>
  Claim C8 as amended. For every inbound line that starts with \<open>FREQ:\<close>, an estimate is
  produced and marked active. Each of the three fields is found on its own among the parts
  separated by \<open>|\<close>: when exactly one part bears the prefix of a field, the field is the
  value of that part, wherever the part stands, and when no part bears the prefix of NOTE or
  CENTS, the field is the empty string or 0. A line that starts with neither \<open>BEAT:\<close> nor
  \<open>FREQ:\<close> gives no update, whatever fields it carries.
\<close>

theorem tuner_line_fields:
  assumes "startsWith data ''FREQ:''"
  shows "\<exists>td. onDataReceived data = SetTunerData td \<and> isActive td
    \<and> (\<forall>p. filter (\<lambda>q. startsWith q ''NOTE:'') (split (trim data) CHR ''|'') = [p] \<longrightarrow>
          noteName td = or_else (nth_opt (split p CHR '':'') 1) '''')
    \<and> (\<forall>p. filter (\<lambda>q. startsWith q ''CENTS:'') (split (trim data) CHR ''|'') = [p] \<longrightarrow>
          TunerData.cents td = parseInt (or_else (nth_opt (split p CHR '':'') 1) ''0''))
    \<and> (\<forall>p. filter (\<lambda>q. startsWith q ''FREQ:'') (split (trim data) CHR ''|'') = [p] \<longrightarrow>
          frequency td = parseFloat (or_else (nth_opt (split p CHR '':'') 1) ''0''))
    \<and> (filter (\<lambda>q. startsWith q ''NOTE:'') (split (trim data) CHR ''|'') = [] \<longrightarrow>
          noteName td = '''')
    \<and> (filter (\<lambda>q. startsWith q ''CENTS:'') (split (trim data) CHR ''|'') = [] \<longrightarrow>
          TunerData.cents td = Fin 0)
    \<and> (\<not> startsWith other ''BEAT:'' \<and> \<not> startsWith other ''FREQ:'' \<longrightarrow>
          onDataReceived other = NoUpdate)"
proof -
  let ?ps = "split (trim data) CHR ''|''"
  let ?td = "\<lparr>frequency = parseFloat (or_else (field_value ?ps ''FREQ:'') ''0''),
        noteName = or_else (field_value ?ps ''NOTE:'') [],
        cents = parseInt (or_else (field_value ?ps ''CENTS:'') ''0''),
        isActive = True\<rparr>"
  have r: "onDataReceived data = SetTunerData ?td"
    using onDataReceived_tuner[OF assms] by simp
  have other: "\<not> startsWith other ''BEAT:'' \<and> \<not> startsWith other ''FREQ:'' \<longrightarrow>
          onDataReceived other = NoUpdate"
    by (simp add: onDataReceived_def Let_def)
  have n1: "\<forall>p. filter (\<lambda>q. startsWith q ''NOTE:'') ?ps = [p] \<longrightarrow>
          noteName ?td = or_else (nth_opt (split p CHR '':'') 1) []"
    by (simp add: field_value_unique)
  have c1: "\<forall>p. filter (\<lambda>q. startsWith q ''CENTS:'') ?ps = [p] \<longrightarrow>
          TunerData.cents ?td = parseInt (or_else (nth_opt (split p CHR '':'') 1) ''0'')"
    by (simp add: field_value_unique)
  have f1: "\<forall>p. filter (\<lambda>q. startsWith q ''FREQ:'') ?ps = [p] \<longrightarrow>
          frequency ?td = parseFloat (or_else (nth_opt (split p CHR '':'') 1) ''0'')"
    by (simp add: field_value_unique)
  have n0: "filter (\<lambda>q. startsWith q ''NOTE:'') ?ps = [] \<longrightarrow> noteName ?td = []"
    by (simp add: field_value_absent or_else_def)
  have c0: "filter (\<lambda>q. startsWith q ''CENTS:'') ?ps = [] \<longrightarrow> TunerData.cents ?td = Fin 0"
    by (simp add: field_value_absent or_else_def parse_defaults)
  have act: "isActive ?td" by simp
  from r act n1 c1 f1 n0 c0 other show ?thesis by blast
qed

theorem tuner_line_fields_witness:
  "startsWith ''FREQ:441.5|CENTS:-12|NOTE:A#'' ''FREQ:''
   \<and> onDataReceived ''FREQ:441.5|CENTS:-12|NOTE:A#'' =
       SetTunerData \<lparr>frequency = Fin 441.5, noteName = ''A#'', cents = Fin (- 12), isActive = True\<rparr>"
proof -
  let ?d = "''FREQ:441.5|CENTS:-12|NOTE:A#''"
  have a: "startsWith ?d ''FREQ:''" by (simp add: startsWith_def)
  have parts: "split (trim ?d) CHR ''|'' = [''FREQ:441.5'', ''CENTS:-12'', ''NOTE:A#'']"
    by (simp add: trim_def is_space_def)
  have sel:
    "filter (\<lambda>q. startsWith q ''NOTE:'') [''FREQ:441.5'', ''CENTS:-12'', ''NOTE:A#''] = [''NOTE:A#'']"
    "filter (\<lambda>q. startsWith q ''CENTS:'') [''FREQ:441.5'', ''CENTS:-12'', ''NOTE:A#''] = [''CENTS:-12'']"
    "filter (\<lambda>q. startsWith q ''FREQ:'') [''FREQ:441.5'', ''CENTS:-12'', ''NOTE:A#''] = [''FREQ:441.5'']"
    by (simp_all add: startsWith_def)
  have vals:
    "parseFloat (or_else (nth_opt (split ''FREQ:441.5'' CHR '':'') 1) ''0'') = Fin 441.5"
    "or_else (nth_opt (split ''NOTE:A#'' CHR '':'') 1) [] = ''A#''"
    "parseInt (or_else (nth_opt (split ''CENTS:-12'' CHR '':'') 1) ''0'') = Fin (- 12)"
    by (simp_all add: string_defs)
  from tuner_line_fields[OF a, of "''NOTE:A''"] obtain td where
    td: "onDataReceived ?d = SetTunerData td" "isActive td"
    and n: "\<forall>p. filter (\<lambda>q. startsWith q ''NOTE:'') (split (trim ?d) CHR ''|'') = [p] \<longrightarrow>
          noteName td = or_else (nth_opt (split p CHR '':'') 1) []"
    and c: "\<forall>p. filter (\<lambda>q. startsWith q ''CENTS:'') (split (trim ?d) CHR ''|'') = [p] \<longrightarrow>
          TunerData.cents td = parseInt (or_else (nth_opt (split p CHR '':'') 1) ''0'')"
    and f: "\<forall>p. filter (\<lambda>q. startsWith q ''FREQ:'') (split (trim ?d) CHR ''|'') = [p] \<longrightarrow>
          frequency td = parseFloat (or_else (nth_opt (split p CHR '':'') 1) ''0'')"
    by blast
  have "noteName td = ''A#''"
    using n[unfolded parts sel, rule_format, of "''NOTE:A#''"] vals(2) by simp
  moreover have "TunerData.cents td = Fin (- 12)"
    using c[unfolded parts sel, rule_format, of "''CENTS:-12''"] vals(3) by simp
  moreover have "frequency td = Fin 441.5"
    using f[unfolded parts sel, rule_format, of "''FREQ:441.5''"] vals(1) by simp
  ultimately have "td = \<lparr>frequency = Fin 441.5, noteName = ''A#'', cents = Fin (- 12), isActive = True\<rparr>"
    using td(2) by (cases td) simp
  then show ?thesis using a td(1) by simp
qed

end
